theory Spec2Isabelle
  imports Main "HOL-Library.Word"
begin

unbundle bit_operations_syntax

section \<open>Values shared by the transaction code\<close>

text \<open>
  A Node \<open>Buffer\<close> is a sequence of bytes. JavaScript strings are modelled as \<open>string\<close>;
  the model covers ASCII text, where a character and its UTF-8 byte coincide.
\<close>

type_synonym byte = "8 word"
type_synonym buffer = "byte list"

text \<open>
  What the code throws. \<open>Error m\<close> is \<open>throw new Error(m)\<close> with the message of the source;
  \<open>TypeError\<close> is the exception JavaScript raises when a method is called on \<open>null\<close> or
  \<open>undefined\<close>; \<open>EncodingError\<close> is a failure inside the encoder module.
\<close>

datatype error = Error string | TypeError | EncodingError

text \<open>
  Plain JavaScript values handed to the encoder. An object literal is the list of its
  key/value pairs in the order written. \<open>JUndefined\<close> is the value of a property that was
  never given.
\<close>

datatype json =
    JNull
  | JUndefined
  | JNumber int
  | JString string
  | JArray "json list"
  | JObject "(string \<times> json) list"

subsection \<open>Number.prototype.toString\<close>

text \<open>
  \<open>n.toString()\<close> for an integral number below \<open>10^21\<close> in magnitude is its decimal numeral,
  with a leading minus sign when negative. The numeric fields of a transaction are modelled
  as \<open>int\<close>, inside that range.
\<close>

definition digit_char :: "nat \<Rightarrow> char" where
  "digit_char d = char_of (48 + d)"

function nat_toString :: "nat \<Rightarrow> string" where
  "nat_toString n =
     (if n < 10 then [digit_char n] else nat_toString (n div 10) @ [digit_char (n mod 10)])"
  by pat_completeness auto
termination
  by (relation "measure id") auto

declare nat_toString.simps [simp del]

definition Number_toString :: "int \<Rightarrow> string" where
  "Number_toString n =
     (if n < 0 then CHR ''-'' # nat_toString (nat (- n)) else nat_toString (nat n))"

section \<open>The message capability\<close>

text \<open>
  \<open>BaseMsg\<close> (types/msg, not part of the sources at hand) is used by \<open>Transaction\<close> only
  through its two projections: \<open>getSignMsg()\<close>, the signable form, and \<open>getMsg()\<close>, the wire
  form. A message is the pair of what the two calls return; the wire form stays abstract.
\<close>

record 'w baseMsg =
  getSignMsg :: json
  getMsg :: 'w

section \<open>Transaction (tx/index.ts)\<close>

text \<open>
  The constructor parameter \<open>StdSignMsg\<close>. A property that was not given is \<open>None\<close>.
\<close>

record 'w stdSignMsg =
  data_chainId :: "string option"
  data_accountNumber :: "int option"
  data_sequence :: "int option"
  data_msg :: "'w baseMsg option"
  data_memo :: "string option"
  data_source :: "int option"

record stdSignature =
  pub_key :: buffer
  signature :: buffer
  sig_account_number :: int
  sig_sequence :: int

text \<open>
  The fields of the class. \<open>memo\<close> has the type of the parameter's property and may be
  \<open>undefined\<close> (\<open>None\<close>).
\<close>

record 'w transaction =
  sequence :: int
  account_number :: int
  chain_id :: string
  msg :: "'w baseMsg"
  memo :: "string option"
  source :: int
  signatures :: "stdSignature list"

text \<open>\<open>data.sequence || 0\<close>: an absent number, and 0 itself, give 0.\<close>

definition or_zero :: "int option \<Rightarrow> int" where
  "or_zero v = (case v of None \<Rightarrow> 0 | Some n \<Rightarrow> if n = 0 then 0 else n)"

text \<open>
  The constructor. \<open>data = data || {}\<close> turns an absent argument into an object with no
  property. \<open>!data.chainId\<close> holds for an absent chain id and for the empty string;
  \<open>!data.msg\<close> holds for an absent message only (an object is never falsy).
\<close>

definition empty_data :: "'w stdSignMsg" where
  "empty_data = \<lparr>data_chainId = None, data_accountNumber = None, data_sequence = None,
     data_msg = None, data_memo = None, data_source = None\<rparr>"

definition Transaction_constructor :: "'w stdSignMsg option \<Rightarrow> error + 'w transaction" where
  "Transaction_constructor arg =
     (let data = (case arg of None \<Rightarrow> empty_data | Some d \<Rightarrow> d) in
      case data_chainId data of
        None \<Rightarrow> Inl (Error ''chain id should not be null'')
      | Some c \<Rightarrow>
          if c = [] then Inl (Error ''chain id should not be null'')
          else (case data_msg data of
                  None \<Rightarrow> Inl (Error ''Transaction type should not be null'')
                | Some m \<Rightarrow>
                    Inr \<lparr>sequence = or_zero (data_sequence data),
                         account_number = or_zero (data_accountNumber data),
                         chain_id = c,
                         msg = m,
                         memo = data_memo data,
                         source = or_zero (data_source data),
                         signatures = []\<rparr>))"

text \<open>
  The specification's name for the two failures of construction.
\<close>

definition MissingFieldError :: "error \<Rightarrow> bool" where
  "MissingFieldError e \<longleftrightarrow>
     e = Error ''chain id should not be null'' \<or> e = Error ''Transaction type should not be null''"

subsection \<open>Buffers and hexadecimal text\<close>

text \<open>
  \<open>buf.toString("hex")\<close>: two lower-case hexadecimal digits per byte, high nibble first.
\<close>

definition hex_digit :: "nat \<Rightarrow> char" where
  "hex_digit d = (if d < 10 then char_of (48 + d) else char_of (87 + d))"

definition toString_hex :: "buffer \<Rightarrow> string" where
  "toString_hex bs = concat (map (\<lambda>b. [hex_digit (unat b div 16), hex_digit (unat b mod 16)]) bs)"

text \<open>
  \<open>Buffer.from(s, "hex")\<close>: pairs of hexadecimal digits (either case) become bytes;
  decoding stops at the first pair that is not two hexadecimal digits, and a trailing
  single character is dropped.
\<close>

definition hex_value :: "char \<Rightarrow> nat option" where
  "hex_value c =
     (let n = (of_char c :: nat) in
      if 48 \<le> n \<and> n \<le> 57 then Some (n - 48)
      else if 97 \<le> n \<and> n \<le> 102 then Some (n - 87)
      else if 65 \<le> n \<and> n \<le> 70 then Some (n - 55)
      else None)"

fun Buffer_from_hex :: "string \<Rightarrow> buffer" where
  "Buffer_from_hex (a # b # rest) =
     (case hex_value a of
        None \<Rightarrow> []
      | Some h \<Rightarrow> (case hex_value b of
                    None \<Rightarrow> []
                  | Some l \<Rightarrow> of_nat (16 * h + l) # Buffer_from_hex rest))"
| "Buffer_from_hex _ = []"

subsection \<open>The encoder module\<close>

text \<open>
  Modelled from the spec: the key order of the canonical encoder (the encoder module is
  not among the sources). The keys of every object are sorted lexicographically; keys
  compare by character code.
\<close>

fun string_le :: "string \<Rightarrow> string \<Rightarrow> bool" where
  "string_le [] _ = True"
| "string_le (a # as) [] = False"
| "string_le (a # as) (b # bs) =
     (if (of_char a :: nat) < of_char b then True
      else if (of_char b :: nat) < of_char a then False
      else string_le as bs)"

fun insert_field :: "string \<times> 'a \<Rightarrow> (string \<times> 'a) list \<Rightarrow> (string \<times> 'a) list" where
  "insert_field kv [] = [kv]"
| "insert_field kv (f # fs) =
     (if string_le (fst kv) (fst f) then kv # f # fs else f # insert_field kv fs)"

definition sort_fields :: "(string \<times> 'a) list \<Rightarrow> (string \<times> 'a) list" where
  "sort_fields fs = foldr insert_field fs []"

text \<open>
  Modelled from the spec: the layout of the canonical text (the encoder module is not
  among the sources): no whitespace, members separated by commas, strings between double
  quotes. The model covers strings that need no escape sequence.
\<close>

fun join_comma :: "string list \<Rightarrow> string" where
  "join_comma [] = []"
| "join_comma [s] = s"
| "join_comma (s # t # ss) = s @ '','' @ join_comma (t # ss)"

definition quote :: "string \<Rightarrow> string" where
  "quote s = [CHR 0x22] @ s @ [CHR 0x22]"

text \<open>
  Modelled from the spec: the specification's \<open>renderSignable\<close> (the encoder module is not
  among the sources), a whitespace-free textual encoding of objects, arrays, strings,
  \<open>null\<close> and numbers, with the keys of every object sorted, at every nesting level. It
  fails on a value outside that set, such as \<open>undefined\<close>: the result is \<open>None\<close>.
\<close>

fun render :: "json \<Rightarrow> string option"
  and render_elems :: "json list \<Rightarrow> string list option"
  and render_fields :: "(string \<times> json) list \<Rightarrow> (string \<times> string) list option"
where
  "render JNull = Some ''null''"
| "render JUndefined = None"
| "render (JNumber n) = Some (Number_toString n)"
| "render (JString s) = Some (quote s)"
| "render (JArray xs) =
     (case render_elems xs of
        None \<Rightarrow> None
      | Some ss \<Rightarrow> Some (''['' @ join_comma ss @ '']''))"
| "render (JObject kvs) =
     (case render_fields kvs of
        None \<Rightarrow> None
      | Some fs \<Rightarrow>
          Some (''{'' @ join_comma (map (\<lambda>f. quote (fst f) @ '':'' @ snd f) (sort_fields fs)) @ ''}''))"
| "render_elems [] = Some []"
| "render_elems (x # xs) =
     (case render x of
        None \<Rightarrow> None
      | Some s \<Rightarrow> (case render_elems xs of None \<Rightarrow> None | Some ss \<Rightarrow> Some (s # ss)))"
| "render_fields [] = Some []"
| "render_fields (kv # kvs) =
     (case render (snd kv) of
        None \<Rightarrow> None
      | Some s \<Rightarrow>
          (case render_fields kvs of None \<Rightarrow> None | Some fs \<Rightarrow> Some ((fst kv, s) # fs)))"

text \<open>\<open>Buffer.from(s)\<close> for ASCII text: one byte per character.\<close>

definition Buffer_from_string :: "string \<Rightarrow> buffer" where
  "Buffer_from_string s = map of_char s"

text \<open>
  Modelled from the spec: \<open>encoder.convertObjectToSignBytes\<close> (the encoder module is not
  among the sources): the bytes of the canonical text, or the failure \<open>EncodingError\<close>
  of the specification on a value that has none.
\<close>

definition convertObjectToSignBytes :: "json \<Rightarrow> error + buffer" where
  "convertObjectToSignBytes obj =
     (case render obj of None \<Rightarrow> Inl EncodingError | Some s \<Rightarrow> Inr (Buffer_from_string s))"

text \<open>
  Modelled from the spec: \<open>UVarInt.encode\<close> (encoder/varint is not among the sources), the
  base-128 varint of an unsigned integer: seven bits per byte, least-significant group
  first, the high bit of a byte set when another byte follows.
\<close>

function UVarInt_encode :: "nat \<Rightarrow> buffer" where
  "UVarInt_encode n =
     (if n < 128 then [of_nat n] else of_nat (n mod 128 + 128) # UVarInt_encode (n div 128))"
  by pat_completeness auto
termination
  by (relation "measure id") auto

declare UVarInt_encode.simps [simp del]

text \<open>
  Modelled from the spec: \<open>encoder.encodeBinaryByteArray\<close> (not among the sources), the
  length-prefix rule: the varint of the length, followed by the bytes.
\<close>

definition encodeBinaryByteArray :: "buffer \<Rightarrow> buffer" where
  "encodeBinaryByteArray bytes = UVarInt_encode (length bytes) @ bytes"

subsection \<open>getSignBytes\<close>

text \<open>
  The object literal \<open>signMsg\<close> built by \<open>getSignBytes\<close>, keys in the order written.
  \<open>msg = msg || this.msg.getSignMsg()\<close> takes the argument when one is given.
\<close>

definition memo_value :: "string option \<Rightarrow> json" where
  "memo_value m = (case m of None \<Rightarrow> JUndefined | Some s \<Rightarrow> JString s)"

definition signMsg :: "'w transaction \<Rightarrow> json option \<Rightarrow> json" where
  "signMsg tx arg =
     (let m = (case arg of Some m \<Rightarrow> m | None \<Rightarrow> getSignMsg (msg tx)) in
      JObject
        [(''account_number'', JString (Number_toString (account_number tx))),
         (''chain_id'', JString (chain_id tx)),
         (''data'', JNull),
         (''memo'', memo_value (memo tx)),
         (''msgs'', JArray [m]),
         (''sequence'', JString (Number_toString (sequence tx))),
         (''source'', JString (Number_toString (source tx)))])"

text \<open>
  \<open>getSignBytes\<close> hands the object to \<open>encoder.convertObjectToSignBytes\<close>, here the
  parameter \<open>conv\<close>.
\<close>

definition getSignBytes ::
  "(json \<Rightarrow> error + buffer) \<Rightarrow> 'w transaction \<Rightarrow> json option \<Rightarrow> error + buffer" where
  "getSignBytes conv tx arg = conv (signMsg tx arg)"

subsection \<open>Public keys\<close>

text \<open>
  A curve point of the elliptic library as \<open>_serializePubKey\<close> sees it: the big numbers
  returned by \<open>getX()\<close> and \<open>getY()\<close>, \<open>None\<close> where the point has no such coordinate
  (the point at infinity has neither).
\<close>

record point =
  getX :: "nat option"
  getY :: "nat option"

text \<open>
  \<open>x.toArrayLike(Buffer, "be", len)\<close> of the big-number library: the number in \<open>len\<close>
  bytes, most significant first; the library raises an error when the number needs more
  bytes.
\<close>

fun be_bytes :: "nat \<Rightarrow> nat \<Rightarrow> buffer" where
  "be_bytes 0 x = []"
| "be_bytes (Suc n) x = be_bytes n (x div 256) @ [of_nat (x mod 256)]"

definition toArrayLike_be :: "nat \<Rightarrow> nat \<Rightarrow> error + buffer" where
  "toArrayLike_be x len =
     (if x < 256 ^ len then Inr (be_bytes len x)
      else Inl (Error ''byte array longer than desired length''))"

text \<open>\<open>Buffer.from("EB5AE987", "hex")\<close>.\<close>

definition pubkey_prefix :: buffer where
  "pubkey_prefix = Buffer_from_hex ''EB5AE987''"

text \<open>
  \<open>_serializePubKey\<close>. \<open>y && y.isOdd()\<close> is false for a missing \<open>y\<close>; \<open>format |= 0x1\<close>
  is the bitwise or. Calling \<open>toArrayLike\<close> on a missing \<open>x\<close> raises a \<open>TypeError\<close>
  (where the library's \<open>getY()\<close> and \<open>getX()\<close> raise on a point without coordinates
  instead of returning nothing, it is the same exception, two lines earlier).
\<close>

definition serializePubKey_format :: "point \<Rightarrow> nat" where
  "serializePubKey_format unencodedPubKey =
     (case getY unencodedPubKey of
        None \<Rightarrow> 2
      | Some y \<Rightarrow> if odd y then 2 OR 1 else 2)"

definition serializePubKey :: "point \<Rightarrow> error + buffer" where
  "serializePubKey unencodedPubKey =
     (let format = serializePubKey_format unencodedPubKey in
      case getX unencodedPubKey of
        None \<Rightarrow> Inl TypeError
      | Some x \<Rightarrow>
          (case toArrayLike_be x 32 of
             Inl e \<Rightarrow> Inl e
           | Inr xb \<Rightarrow>
               Inr (pubkey_prefix @ encodeBinaryByteArray (UVarInt_encode format @ xb))))"

text \<open>
  The specification's name for the failure of public-key compression: the exceptions
  raised on a point without coordinates or with a coordinate that does not fit.
\<close>

definition InvalidPointError :: "error \<Rightarrow> bool" where
  "InvalidPointError e \<longleftrightarrow>
     e = TypeError \<or> e = Error ''byte array longer than desired length''"

subsection \<open>addSignature, sign, serialize\<close>

definition addSignature :: "'w transaction \<Rightarrow> point \<Rightarrow> buffer \<Rightarrow> error + 'w transaction" where
  "addSignature tx pubKey sg =
     (case serializePubKey pubKey of
        Inl e \<Rightarrow> Inl e
      | Inr pubKeyBuf \<Rightarrow>
          Inr (tx\<lparr>signatures :=
                  [\<lparr>pub_key = pubKeyBuf, signature = sg,
                    sig_account_number = account_number tx, sig_sequence = sequence tx\<rparr>]\<rparr>))"

text \<open>
  The crypto module (not among the sources) is the external signer: \<open>generateSignature\<close>
  takes the text to sign and the key bytes, \<open>generatePubKey\<close> the key bytes.
\<close>

record crypto =
  generateSignature :: "string \<Rightarrow> buffer \<Rightarrow> buffer"
  generatePubKey :: "buffer \<Rightarrow> point"

text \<open>
  \<open>!privateKey\<close> holds for the empty string. The \<open>console.log\<close> of the signature is not
  modelled.
\<close>

definition sign ::
  "crypto \<Rightarrow> (json \<Rightarrow> error + buffer) \<Rightarrow> 'w transaction \<Rightarrow> string \<Rightarrow> json option
     \<Rightarrow> error + 'w transaction" where
  "sign cr conv tx privateKey arg =
     (if privateKey = [] then Inl (Error ''private key should not be null'')
      else (case getSignBytes conv tx arg of
              Inl e \<Rightarrow> Inl e
            | Inr signBytes \<Rightarrow>
                (let privKeyBuf = Buffer_from_hex privateKey;
                     sg = generateSignature cr (toString_hex signBytes) privKeyBuf
                 in addSignature tx (generatePubKey cr privKeyBuf) sg)))"

text \<open>
  The members of the enumeration \<open>TxAminoPrefix\<close> (types/stdTx) that the sources name.
\<close>

datatype txAminoPrefix = MsgSend | StdTx

record 'w stdTx =
  tx_msg :: "'w list"
  tx_signatures :: "stdSignature list"
  tx_memo :: "string option"
  tx_source :: int
  tx_data :: string
  tx_aminoPrefix :: txAminoPrefix

text \<open>
  \<open>!this.signatures\<close>: an array is an object, and every object is truthy in JavaScript,
  the empty array too.
\<close>

definition truthy_array :: "'a list \<Rightarrow> bool" where
  "truthy_array xs = True"

text \<open>
  \<open>serialize\<close>; \<open>encoder.marshalBinary\<close> is the parameter \<open>marshalBinary\<close>, \<open>None\<close> when
  the encoder fails.
\<close>

definition serialize :: "('w stdTx \<Rightarrow> buffer option) \<Rightarrow> 'w transaction \<Rightarrow> error + string" where
  "serialize marshalBinary tx =
     (if \<not> truthy_array (signatures tx) then Inl (Error ''need signature'')
      else (let stdTx = \<lparr>tx_msg = [getMsg (msg tx)],
                          tx_signatures = signatures tx,
                          tx_memo = memo tx,
                          tx_source = source tx,
                          tx_data = [],
                          tx_aminoPrefix = StdTx\<rparr>
            in case marshalBinary stdTx of
                 None \<Rightarrow> Inl EncodingError
               | Some bytes \<Rightarrow> Inr (toString_hex bytes)))"

subsection \<open>Method calls on a transaction\<close>

text \<open>
  The modules a transaction calls into, and the public methods as calls on the object:
  each call gives what it returned or threw together with the object's fields afterwards.
  \<open>getSignBytes\<close> and \<open>serialize\<close> assign to no field; \<open>addSignature\<close> and \<open>sign\<close> assign
  \<open>signatures\<close> as their last step, so a call that throws leaves the fields as they were.
\<close>

record 'w modules =
  crypto_module :: crypto
  encoder_convertObjectToSignBytes :: "json \<Rightarrow> error + buffer"
  encoder_marshalBinary :: "'w stdTx \<Rightarrow> buffer option"

datatype call =
    CallGetSignBytes "json option"
  | CallAddSignature point buffer
  | CallSign string "json option"
  | CallSerialize

datatype outcome = Threw error | ReturnedBuffer buffer | ReturnedString string | ReturnedThis

fun invoke :: "'w modules \<Rightarrow> call \<Rightarrow> 'w transaction \<Rightarrow> outcome \<times> 'w transaction" where
  "invoke ms (CallGetSignBytes arg) tx =
     (case getSignBytes (encoder_convertObjectToSignBytes ms) tx arg of
        Inl e \<Rightarrow> (Threw e, tx)
      | Inr b \<Rightarrow> (ReturnedBuffer b, tx))"
| "invoke ms (CallAddSignature pubKey sg) tx =
     (case addSignature tx pubKey sg of
        Inl e \<Rightarrow> (Threw e, tx)
      | Inr tx' \<Rightarrow> (ReturnedThis, tx'))"
| "invoke ms (CallSign privateKey arg) tx =
     (case sign (crypto_module ms) (encoder_convertObjectToSignBytes ms) tx privateKey arg of
        Inl e \<Rightarrow> (Threw e, tx)
      | Inr tx' \<Rightarrow> (ReturnedThis, tx'))"
| "invoke ms CallSerialize tx =
     (case serialize (encoder_marshalBinary ms) tx of
        Inl e \<Rightarrow> (Threw e, tx)
      | Inr s \<Rightarrow> (ReturnedString s, tx))"

fun invoke_all :: "'w modules \<Rightarrow> call list \<Rightarrow> 'w transaction \<Rightarrow> 'w transaction" where
  "invoke_all ms [] tx = tx"
| "invoke_all ms (c # cs) tx = invoke_all ms cs (snd (invoke ms c tx))"

section \<open>SendMsg (types/send.ts)\<close>

text \<open>
  The \<open>amount\<close> of a coin is a JavaScript number. The model covers the numbers that are
  integers: \<open>amount\<close> is the integer the number is. Amounts with a fraction are outside
  the model.
\<close>

record coin =
  denom :: string
  amount :: int

text \<open>
  \<open>Number(text)\<close> for the decimal text of an integer (of magnitude below \<open>2^1024\<close>): the
  double nearest to the integer, and of two equally near ones the one with the even
  significand. Every integer up to \<open>2^53\<close> in magnitude is a double; above, the doubles
  around a magnitude of \<open>n\<close> bits are the multiples of \<open>2^(n - 53)\<close>.
\<close>

function bit_length :: "nat \<Rightarrow> nat" where
  "bit_length n = (if n = 0 then 0 else Suc (bit_length (n div 2)))"
  by pat_completeness auto
termination
  by (relation "measure id") auto

declare bit_length.simps [simp del]

definition round_to_double :: "int \<Rightarrow> int" where
  "round_to_double s =
     (let m = nat \<bar>s\<bar> in
      if m \<le> 2 ^ 53 then s
      else (let q = 2 ^ (bit_length m - 53);
                lo = (m div q) * q;
                r = m mod q;
                up = (q < 2 * r \<or> (2 * r = q \<and> odd (m div q)))
            in sgn s * int (if up then lo + q else lo)))"

text \<open>
  \<open>Number(new Big(a).plus(b).toString())\<close>. \<open>Big\<close> reads a number through its decimal
  text, which for an integral number of magnitude up to \<open>2^54\<close> is the integer itself;
  \<open>plus\<close> adds the two decimal values exactly; \<open>Number\<close> gives the double nearest to the
  sum. The definition is what the code computes for such \<open>a\<close> and \<open>b\<close>.
\<close>

definition Number_Big_plus :: "int \<Rightarrow> int \<Rightarrow> int" where
  "Number_Big_plus a b = round_to_double (a + b)"

text \<open>
  \<open>calInputCoins\<close> assigns to a property of a coin object, so the coin objects are kept in
  a store and the arrays hold references to them. A reference is the position of the
  object in the store; a new object takes the next position. In a running program every
  reference points to an object of the store.
\<close>

type_synonym ref = nat
type_synonym store = "coin list"

record signInputOutput =
  address :: string
  coins :: "ref list"

record signedSend =
  inputs :: "signInputOutput list"
  outputs :: "signInputOutput list"

record sendMsg =
  this_sender :: string
  this_outputs :: "signInputOutput list"

text \<open>
  The body of the \<open>forEach\<close> in \<open>calInputCoins\<close>, on the store and the array \<open>inputsCoins\<close>:
  \<open>find\<close> gives the first entry whose denom is the coin's; the assignment to its \<open>amount\<close>
  changes that object in the store; otherwise \<open>{ ...coin }\<close> makes a new object with the
  coin's properties and \<open>push\<close> appends the reference to it.
\<close>

definition calInputCoins_each :: "store \<times> ref list \<Rightarrow> ref \<Rightarrow> store \<times> ref list" where
  "calInputCoins_each st r =
     (let h = fst st; inputsCoins = snd st; c = h ! r in
      case find (\<lambda>e. denom (h ! e) = denom c) inputsCoins of
        Some existCoin \<Rightarrow>
          (h[existCoin :=
               (h ! existCoin)\<lparr>amount := Number_Big_plus (amount (h ! existCoin)) (amount c)\<rparr>],
           inputsCoins)
      | None \<Rightarrow> (h @ [c], inputsCoins @ [length h]))"

definition calInputCoins :: "store \<times> ref list \<Rightarrow> ref list \<Rightarrow> store \<times> ref list" where
  "calInputCoins st cs = foldl calInputCoins_each st cs"

text \<open>
  \<open>getSignMsg\<close>: the input's \<open>coins\<close> starts as a new empty array, \<open>outputs\<close> is the array
  of the object itself; the result is the store afterwards and the structure returned.
\<close>

definition SendMsg_getSignMsg :: "store \<Rightarrow> sendMsg \<Rightarrow> store \<times> signedSend" where
  "SendMsg_getSignMsg h this =
     (let st = foldl (\<lambda>st item. calInputCoins st (coins item)) (h, []) (this_outputs this)
      in (fst st,
          \<lparr>inputs = [\<lparr>address = this_sender this, coins = snd st\<rparr>],
           outputs = this_outputs this\<rparr>))"

text \<open>The coin objects an array of references holds.\<close>

definition deref :: "store \<Rightarrow> ref list \<Rightarrow> coin list" where
  "deref h rs = map (\<lambda>r. h ! r) rs"

text \<open>Every coin reference of the outputs points into the store.\<close>

definition refs_valid :: "store \<Rightarrow> sendMsg \<Rightarrow> bool" where
  "refs_valid h this =
     list_all (\<lambda>item. list_all (\<lambda>r. r < length h) (coins item)) (this_outputs this)"

text \<open>The total amount of one denom in a list of coins.\<close>

definition denom_total :: "string \<Rightarrow> coin list \<Rightarrow> int" where
  "denom_total d cs = sum_list (map amount (filter (\<lambda>c. denom c = d) cs))"

text \<open>
  The sum of the magnitudes of the amounts of one denom, and the lists of coins in which,
  for every denom, that sum is at most \<open>2^53\<close>: adding the amounts of a denom in any
  order then never leaves the integers that a JavaScript number holds exactly.
\<close>

definition denom_abs_total :: "string \<Rightarrow> coin list \<Rightarrow> int" where
  "denom_abs_total d cs = sum_list (map (\<lambda>c. \<bar>amount c\<bar>) (filter (\<lambda>c. denom c = d) cs))"

definition amounts_exact :: "coin list \<Rightarrow> bool" where
  "amounts_exact cs = list_all (\<lambda>c. denom_abs_total (denom c) cs \<le> 2 ^ 53) cs"

text \<open>
  The effect of one step on the coin values of the input array: the amount is added, as
  the code adds, to the first coin of that denom, or the coin is appended.
\<close>

fun merge_coin :: "coin list \<Rightarrow> coin \<Rightarrow> coin list" where
  "merge_coin [] c = [c]"
| "merge_coin (v # vs) c =
     (if denom v = denom c then v\<lparr>amount := Number_Big_plus (amount v) (amount c)\<rparr> # vs
      else v # merge_coin vs c)"

text \<open>The same step with the exact sum of the two integers.\<close>

fun merge_exact :: "coin list \<Rightarrow> coin \<Rightarrow> coin list" where
  "merge_exact [] c = [c]"
| "merge_exact (v # vs) c =
     (if denom v = denom c then v\<lparr>amount := amount v + amount c\<rparr> # vs
      else v # merge_exact vs c)"

text \<open>
  What holds of the store and the input array while the coins are visited: the objects
  that were in the store at the start are unchanged, and the input array holds distinct
  references to objects made since.
\<close>

definition store_inv :: "store \<Rightarrow> store \<times> ref list \<Rightarrow> bool" where
  "store_inv h0 st \<longleftrightarrow>
     take (length h0) (fst st) = h0 \<and> length h0 \<le> length (fst st)
     \<and> distinct (snd st) \<and> (\<forall>a \<in> set (snd st). length h0 \<le> a \<and> a < length (fst st))"

text \<open>A store of four coins, and a message with two outputs of two coins each.\<close>

definition store_test :: store where
  "store_test =
     [\<lparr>denom = ''BNB'', amount = 3\<rparr>, \<lparr>denom = ''BTC'', amount = 1\<rparr>,
      \<lparr>denom = ''BTC'', amount = 3\<rparr>, \<lparr>denom = ''BNB'', amount = 10\<rparr>]"

definition sendMsg_test :: sendMsg where
  "sendMsg_test =
     \<lparr>this_sender = ''a'',
      this_outputs = [\<lparr>address = ''b'', coins = [0, 1]\<rparr>, \<lparr>address = ''c'', coins = [2, 3]\<rparr>]\<rparr>"

text \<open>A store of two coins of one denom, of amounts \<open>2^53\<close> and 1, in one output.\<close>

definition store_big :: store where
  "store_big =
     [\<lparr>denom = ''BNB'', amount = 9007199254740992\<rparr>, \<lparr>denom = ''BNB'', amount = 1\<rparr>]"

definition sendMsg_big :: sendMsg where
  "sendMsg_big = \<lparr>this_sender = ''a'', this_outputs = [\<lparr>address = ''b'', coins = [0, 1]\<rparr>]\<rparr>"

text \<open>
  The specification's names for the failures of \<open>sign\<close> and \<open>serialize\<close>.
\<close>

definition MissingKeyError :: "error \<Rightarrow> bool" where
  "MissingKeyError e \<longleftrightarrow> e = Error ''private key should not be null''"

definition MissingSignatureError :: "error \<Rightarrow> bool" where
  "MissingSignatureError e \<longleftrightarrow> e = Error ''need signature''"

text \<open>The value of a key of an object literal.\<close>

fun json_field :: "json \<Rightarrow> string \<Rightarrow> json option" where
  "json_field (JObject kvs) k = map_of kvs k"
| "json_field _ k = None"

text \<open>The number a buffer holds, most significant byte first.\<close>

definition be_value :: "buffer \<Rightarrow> nat" where
  "be_value bs = foldl (\<lambda>a b. 256 * a + unat b) 0 bs"

section \<open>The scenario of the specification\<close>

text \<open>
  A message whose signable form is \<open>{foo: "bar"}\<close> (its wire form, left abstract, is a
  number here), and the constructor argument with
  chain id \<open>"test-chain"\<close>, sequence 5, account number 1 and source 0; the memo is left
  open.
\<close>

definition msg_foo :: "nat baseMsg" where
  "msg_foo = \<lparr>getSignMsg = JObject [(''foo'', JString ''bar'')], getMsg = 0\<rparr>"

definition data_test_chain :: "string option \<Rightarrow> nat stdSignMsg" where
  "data_test_chain m =
     \<lparr>data_chainId = Some ''test-chain'', data_accountNumber = Some 1, data_sequence = Some 5,
      data_msg = Some msg_foo, data_memo = m, data_source = Some 0\<rparr>"

definition tx_test_chain :: "string option \<Rightarrow> nat transaction" where
  "tx_test_chain m =
     \<lparr>sequence = 5, account_number = 1, chain_id = ''test-chain'', msg = msg_foo,
      memo = m, source = 0, signatures = []\<rparr>"

text \<open>
  A point with an odd \<open>y\<close>, its serialization, and stand-ins for the external modules:
  a signer that returns the bytes of the text it is given, a key derivation that returns
  the point, the canonical encoder, and a wire encoder that returns no bytes.
\<close>

definition point_5_7 :: point where
  "point_5_7 = \<lparr>getX = Some 5, getY = Some 7\<rparr>"

definition serialized_5_7 :: buffer where
  "serialized_5_7 =
     [0xEB, 0x5A, 0xE9, 0x87, 33, 3,
      0, 0, 0, 0, 0, 0, 0, 0, 0, 0, 0, 0, 0, 0, 0, 0,
      0, 0, 0, 0, 0, 0, 0, 0, 0, 0, 0, 0, 0, 0, 0, 5]"

definition crypto_test :: crypto where
  "crypto_test =
     \<lparr>generateSignature = (\<lambda>text key. Buffer_from_string text),
      generatePubKey = (\<lambda>key. point_5_7)\<rparr>"

definition modules_test :: "nat modules" where
  "modules_test =
     \<lparr>crypto_module = crypto_test,
      encoder_convertObjectToSignBytes = convertObjectToSignBytes,
      encoder_marshalBinary = (\<lambda>stdTx. Some [])\<rparr>"

text \<open>
  The text of the scenario's sign bytes under the canonical encoder, and the hexadecimal
  text of its bytes.
\<close>

definition scenario_text :: string where
  \<open>scenario_text =
     ''{"account_number":"1","chain_id":"test-chain","data":null,"memo":"","msgs":[{"foo":"bar"}],"sequence":"5","source":"0"}''\<close>

definition scenario_hex :: string where
  "scenario_hex =
     ''7b226163636f756e745f6e756d626572223a2231222c22636861696e5f6964223a22746573742d636861696e222c2264617461223a6e756c6c2c226d656d6f223a22222c226d736773223a5b7b22666f6f223a22626172227d5d2c2273657175656e6365223a2235222c22736f75726365223a2230227d''"

text \<open>A list of calls that are all \<open>addSignature\<close> with a point that serializes.\<close>

fun addSignature_calls :: "call list \<Rightarrow> bool" where
  "addSignature_calls [] = True"
| "addSignature_calls (CallAddSignature p s # cs) =
     ((case serializePubKey p of Inl e \<Rightarrow> False | Inr pk \<Rightarrow> True) \<and> addSignature_calls cs)"
| "addSignature_calls (c # cs) = False"

section \<open>Properties\<close>

subsection \<open>Construction\<close>

lemma or_zero_eq: "or_zero v = (case v of None \<Rightarrow> 0 | Some n \<Rightarrow> n)"
  by (simp add: or_zero_def split: option.splits)

lemma constructor_test_chain:
  "Transaction_constructor (Some (data_test_chain m)) = Inr (tx_test_chain m)"
  by (simp add: Transaction_constructor_def data_test_chain_def tx_test_chain_def or_zero_def)

lemma constructor_no_argument:
  "Transaction_constructor None = Inl (Error ''chain id should not be null'')"
  by (simp add: Transaction_constructor_def empty_data_def)

lemma data_memo_test_chain: "data_memo (data_test_chain m) = m"
  by (simp add: data_test_chain_def)

text \<open>
  C7, as stated, fails: a chain id that is present but is the empty string is rejected
  too, by the guard \<open>!data.chainId\<close>.
\<close>

theorem constructor_empty_chain_id_counterexample:
  "data_chainId ((data_test_chain None)\<lparr>data_chainId := Some []\<rparr>) \<noteq> None
   \<and> data_msg ((data_test_chain None)\<lparr>data_chainId := Some []\<rparr>) \<noteq> None
   \<and> Transaction_constructor (Some ((data_test_chain None)\<lparr>data_chainId := Some []\<rparr>))
       = Inl (Error ''chain id should not be null'')"
  by (simp add: Transaction_constructor_def data_test_chain_def)

text \<open>
  C7 (amended): construction fails, with one of the two missing-field errors, when the
  chain id is absent or the empty string or the message is absent; in every other case
  it succeeds, \<open>sequence\<close>, \<open>accountNumber\<close> and \<open>source\<close> are 0 when unset and the given
  number otherwise, chain id, message and memo are stored as given, and \<open>signatures\<close> is
  empty.
\<close>

theorem constructor_fails_iff:
  "(data_chainId data = None \<or> data_chainId data = Some [] \<or> data_msg data = None
      \<longrightarrow> (\<exists>e. Transaction_constructor (Some data) = Inl e \<and> MissingFieldError e))
   \<and> (\<forall>c m. data_chainId data = Some c \<and> c \<noteq> [] \<and> data_msg data = Some m
      \<longrightarrow> Transaction_constructor (Some data) =
            Inr \<lparr>sequence = (case data_sequence data of None \<Rightarrow> 0 | Some n \<Rightarrow> n),
                 account_number = (case data_accountNumber data of None \<Rightarrow> 0 | Some n \<Rightarrow> n),
                 chain_id = c, msg = m, memo = data_memo data,
                 source = (case data_source data of None \<Rightarrow> 0 | Some n \<Rightarrow> n),
                 signatures = []\<rparr>)"
  by (auto simp: Transaction_constructor_def MissingFieldError_def or_zero_eq split: option.splits)

theorem constructor_fails_iff_witness:
  "(data_msg ((data_test_chain None)\<lparr>data_msg := None\<rparr>) = None
    \<and> Transaction_constructor (Some ((data_test_chain None)\<lparr>data_msg := None\<rparr>))
        = Inl (Error ''Transaction type should not be null''))
   \<and> (data_chainId ((data_test_chain None)\<lparr>data_source := None\<rparr>) = Some ''test-chain''
    \<and> data_msg ((data_test_chain None)\<lparr>data_source := None\<rparr>) = Some msg_foo
    \<and> Transaction_constructor (Some ((data_test_chain None)\<lparr>data_source := None\<rparr>))
        = Inr (tx_test_chain None))"
  using constructor_fails_iff [of "(data_test_chain None)\<lparr>data_msg := None\<rparr>"]
    constructor_fails_iff [of "(data_test_chain None)\<lparr>data_source := None\<rparr>"]
  by (simp add: data_test_chain_def tx_test_chain_def Transaction_constructor_def)

subsection \<open>The memo\<close>

text \<open>
  C8, as stated, fails: the constructor copies \<open>data.memo\<close> and applies no default, so a
  transaction constructed without a memo holds \<open>undefined\<close>, and so does the \<open>memo\<close>
  property of the object that \<open>getSignBytes\<close> builds.
\<close>

theorem memo_default_counterexample:
  "Transaction_constructor (Some (data_test_chain None)) = Inr (tx_test_chain None)
   \<and> memo (tx_test_chain None) \<noteq> Some []
   \<and> json_field (signMsg (tx_test_chain None) None) ''memo'' = Some JUndefined
   \<and> json_field (signMsg (tx_test_chain None) None) ''memo'' \<noteq> Some (JString [])"
  by (simp add: constructor_test_chain) (simp add: tx_test_chain_def signMsg_def memo_value_def)

text \<open>
  C8 (amended): the memo of a constructed transaction is the memo given to the
  constructor, and the \<open>memo\<close> property of the sign payload is that string when one was
  given and \<open>undefined\<close> when none was.
\<close>

theorem memo_stored_as_given:
  "Transaction_constructor (Some data) = Inr tx \<Longrightarrow>
     memo tx = data_memo data
     \<and> json_field (signMsg tx arg) ''memo''
         = Some (case data_memo data of None \<Rightarrow> JUndefined | Some s \<Rightarrow> JString s)"
  by (auto simp: Transaction_constructor_def signMsg_def memo_value_def Let_def
           split: option.splits if_splits)

theorem memo_stored_as_given_witness:
  "Transaction_constructor (Some (data_test_chain (Some ''hello''))) = Inr (tx_test_chain (Some ''hello''))
   \<and> memo (tx_test_chain (Some ''hello'')) = Some ''hello''
   \<and> json_field (signMsg (tx_test_chain (Some ''hello'')) None) ''memo'' = Some (JString ''hello'')"
  using memo_stored_as_given [OF constructor_test_chain, of "Some ''hello''" None]
  by (simp add: constructor_test_chain data_memo_test_chain)

subsection \<open>Sign bytes of the scenario\<close>

text \<open>
  C2, as stated, fails: with no memo given the payload's \<open>memo\<close> is \<open>undefined\<close>, which the
  canonical encoder does not render, whereas the object of the claim renders.
\<close>

theorem getSignBytes_scenario_counterexample:
  \<open>Transaction_constructor (Some (data_test_chain None)) = Inr (tx_test_chain None)
   \<and> getSignBytes convertObjectToSignBytes (tx_test_chain None) None = Inl EncodingError
   \<and> convertObjectToSignBytes
        (JObject [(''account_number'', JString ''1''), (''chain_id'', JString ''test-chain''),
                  (''data'', JNull), (''memo'', JString []),
                  (''msgs'', JArray [JObject [(''foo'', JString ''bar'')]]),
                  (''sequence'', JString ''5''), (''source'', JString ''0'')])
       = Inr (Buffer_from_string
           ''{"account_number":"1","chain_id":"test-chain","data":null,"memo":"","msgs":[{"foo":"bar"}],"sequence":"5","source":"0"}'')\<close>
proof -
  have "getSignBytes convertObjectToSignBytes (tx_test_chain None) None = Inl EncodingError"
    by code_simp
  moreover have \<open>convertObjectToSignBytes
        (JObject [(''account_number'', JString ''1''), (''chain_id'', JString ''test-chain''),
                  (''data'', JNull), (''memo'', JString []),
                  (''msgs'', JArray [JObject [(''foo'', JString ''bar'')]]),
                  (''sequence'', JString ''5''), (''source'', JString ''0'')])
       = Inr (Buffer_from_string
           ''{"account_number":"1","chain_id":"test-chain","data":null,"memo":"","msgs":[{"foo":"bar"}],"sequence":"5","source":"0"}'')\<close>
    by code_simp
  ultimately show ?thesis
    by (simp add: constructor_test_chain)
qed

text \<open>
  C2 (amended): when the transaction of the scenario is constructed with the memo
  \<open>""\<close>, \<open>getSignBytes()\<close> is the encoder's rendering of the object of the claim, whatever
  the encoder, the three numbers being decimal strings; under the canonical encoder of
  the specification these are the bytes of the key-sorted text without whitespace.
\<close>

theorem getSignBytes_scenario:
  \<open>Transaction_constructor (Some (data_test_chain (Some []))) = Inr (tx_test_chain (Some []))
   \<and> getSignBytes conv (tx_test_chain (Some [])) None
       = conv (JObject [(''account_number'', JString ''1''), (''chain_id'', JString ''test-chain''),
                  (''data'', JNull), (''memo'', JString []),
                  (''msgs'', JArray [JObject [(''foo'', JString ''bar'')]]),
                  (''sequence'', JString ''5''), (''source'', JString ''0'')])
   \<and> getSignBytes convertObjectToSignBytes (tx_test_chain (Some [])) None
       = Inr (Buffer_from_string
           ''{"account_number":"1","chain_id":"test-chain","data":null,"memo":"","msgs":[{"foo":"bar"}],"sequence":"5","source":"0"}'')\<close>
proof -
  have n1: "Number_toString 1 = ''1''" and n5: "Number_toString 5 = ''5''"
    and n0: "Number_toString 0 = ''0''"
    by code_simp+
  have "getSignBytes conv (tx_test_chain (Some [])) None
       = conv (JObject [(''account_number'', JString ''1''), (''chain_id'', JString ''test-chain''),
                  (''data'', JNull), (''memo'', JString []),
                  (''msgs'', JArray [JObject [(''foo'', JString ''bar'')]]),
                  (''sequence'', JString ''5''), (''source'', JString ''0'')])"
    by (simp add: getSignBytes_def signMsg_def tx_test_chain_def msg_foo_def memo_value_def n1 n5 n0)
  moreover have \<open>getSignBytes convertObjectToSignBytes (tx_test_chain (Some [])) None
       = Inr (Buffer_from_string
           ''{"account_number":"1","chain_id":"test-chain","data":null,"memo":"","msgs":[{"foo":"bar"}],"sequence":"5","source":"0"}'')\<close>
    by code_simp
  ultimately show ?thesis
    by (simp add: constructor_test_chain)
qed

subsection \<open>Serializing an unsigned transaction\<close>

text \<open>
  C1 does not hold of the code: the guard of \<open>serialize\<close> tests \<open>!this.signatures\<close>, and
  the empty array the constructor stores is truthy. Serializing the freshly constructed
  transaction of the scenario goes on to the encoder, and the outcome is the encoder's:
  never the error \<open>need signature\<close>.
\<close>

theorem serialize_unsigned_reaches_encoder:
  "Transaction_constructor (Some (data_test_chain (Some []))) = Inr (tx_test_chain (Some []))
   \<and> signatures (tx_test_chain (Some [])) = []
   \<and> serialize marshalBinary (tx_test_chain (Some []))
       = (case marshalBinary \<lparr>tx_msg = [0], tx_signatures = [], tx_memo = Some [],
                               tx_source = 0, tx_data = [], tx_aminoPrefix = StdTx\<rparr> of
            None \<Rightarrow> Inl EncodingError
          | Some bytes \<Rightarrow> Inr (toString_hex bytes))
   \<and> \<not> (\<exists>e. serialize marshalBinary (tx_test_chain (Some [])) = Inl e \<and> MissingSignatureError e)"
  by (auto simp: constructor_test_chain serialize_def truthy_array_def tx_test_chain_def
        msg_foo_def MissingSignatureError_def split: option.splits)

subsection \<open>Bytes and hexadecimal text\<close>

lemma length_be_bytes: "length (be_bytes n x) = n"
  by (induction n arbitrary: x) simp_all

lemma be_value_snoc: "be_value (bs @ [b]) = 256 * be_value bs + unat b"
  by (simp add: be_value_def)

lemma be_value_be_bytes: "be_value (be_bytes n x) = x mod 256 ^ n"
proof (induction n arbitrary: x)
  case 0
  show ?case by (simp add: be_value_def)
next
  case (Suc n)
  have "unat (of_nat (x mod 256) :: byte) = x mod 256"
    by (simp add: unat_of_nat)
  then have "be_value (be_bytes (Suc n) x) = 256 * (x div 256 mod 256 ^ n) + x mod 256"
    by (simp add: be_value_snoc Suc.IH)
  also have "\<dots> = x mod 256 ^ Suc n"
    by (simp add: mod_mult2_eq)
  finally show ?case .
qed

lemma UVarInt_encode_small: "n < 128 \<Longrightarrow> UVarInt_encode n = [of_nat n]"
  by (simp add: UVarInt_encode.simps)

lemma pubkey_prefix_bytes: "pubkey_prefix = [0xEB, 0x5A, 0xE9, 0x87]"
  by (simp add: pubkey_prefix_def hex_value_def)

lemma format_tag: "serializePubKey_format pt = (case getY pt of None \<Rightarrow> 2 | Some y \<Rightarrow> if odd y then 3 else 2)"
  by (simp add: serializePubKey_format_def split: option.splits)

lemma hex_value_hex_digit: "d < 16 \<Longrightarrow> hex_value (hex_digit d) = Some d"
  by (auto simp: hex_value_def hex_digit_def Let_def)

lemma from_hex_to_hex: "Buffer_from_hex (toString_hex bs) = bs"
proof (induction bs)
  case Nil
  show ?case by (simp add: toString_hex_def)
next
  case (Cons b bs)
  have h: "unat b div 16 < 16"
    using unsigned_less [of b, where ?'a = nat] by simp
  have l: "unat b mod 16 < 16" by simp
  have "(of_nat (16 * (unat b div 16) + unat b mod 16) :: byte) = b"
    by simp
  with Cons h l show ?case
    by (simp add: toString_hex_def hex_value_hex_digit)
qed

lemma length_toString_hex: "length (toString_hex bs) = 2 * length bs"
  by (induction bs) (simp_all add: toString_hex_def)

lemma hex_digits_lower: "\<forall>d \<in> {0..<16}. hex_digit d \<in> set ''0123456789abcdef''"
  by code_simp

lemma hex_digit_lower: "d < 16 \<Longrightarrow> hex_digit d \<in> set ''0123456789abcdef''"
proof -
  assume "d < 16"
  then have "d \<in> {0..<16}" by simp
  then show ?thesis by (rule bspec [OF hex_digits_lower])
qed

lemma toString_hex_lower: "set (toString_hex bs) \<subseteq> set ''0123456789abcdef''"
proof (induction bs)
  case Nil
  show ?case by (simp add: toString_hex_def)
next
  case (Cons b bs)
  have h: "unat b div 16 < 16"
    using unsigned_less [of b, where ?'a = nat] by simp
  have l: "unat b mod 16 < 16" by simp
  have "set (toString_hex (b # bs))
      = {hex_digit (unat b div 16), hex_digit (unat b mod 16)} \<union> set (toString_hex bs)"
    by (simp add: toString_hex_def)
  moreover have "\<And>a b S T. a \<in> T \<Longrightarrow> b \<in> T \<Longrightarrow> S \<subseteq> T \<Longrightarrow> {a, b} \<union> S \<subseteq> (T :: char set)"
    by blast
  ultimately show ?case
    using Cons hex_digit_lower [OF h] hex_digit_lower [OF l] by presburger
qed

lemma serialize_5_7: "serializePubKey point_5_7 = Inr serialized_5_7"
proof -
  have b: "be_bytes 32 5 = [0, 0, 0, 0, 0, 0, 0, 0, 0, 0, 0, 0, 0, 0, 0, 0,
              0, 0, 0, 0, 0, 0, 0, 0, 0, 0, 0, 0, 0, 0, 0, 5]"
    by code_simp
  have "getX point_5_7 = Some 5" and "getY point_5_7 = Some 7" and "(5::nat) < 2 ^ 256"
    by (simp_all add: point_5_7_def)
  then have "serializePubKey point_5_7
      = Inr ([0xEB, 0x5A, 0xE9, 0x87] @ [33] @ [if odd (7::nat) then 3 else 2] @ be_bytes 32 5)"
    by (simp add: serializePubKey_def toArrayLike_be_def format_tag UVarInt_encode_small
          encodeBinaryByteArray_def length_be_bytes pubkey_prefix_bytes)
  then show ?thesis
    by (simp add: b serialized_5_7_def)
qed

lemma sign_bytes_test_chain:
  "getSignBytes convertObjectToSignBytes (tx_test_chain (Some [])) None
     = Inr (Buffer_from_string scenario_text)"
  by code_simp

lemma hex_text_test_chain: "toString_hex (Buffer_from_string scenario_text) = scenario_hex"
  by code_simp

subsection \<open>Compressed public keys\<close>

text \<open>
  C4: for a point with coordinates \<open>x\<close> and \<open>y\<close>, \<open>x\<close> below \<open>2^256\<close>, the compressed key
  is the tag byte, 3 for an odd \<open>y\<close> and 2 for an even one, followed by the 32 bytes that
  hold \<open>x\<close> most significant first, 33 bytes in all; \<open>_serializePubKey\<close> returns the four
  bytes EB 5A E9 87, then the varint of the length 33 (the single byte 33), then those
  33 bytes, and \<open>addSignature\<close> stores that buffer as the \<open>pub_key\<close> of the signature.
\<close>

theorem serializePubKey_compressed:
  assumes "getX pt = Some x" and "getY pt = Some y" and "x < 2 ^ 256"
  shows "serializePubKey pt
           = Inr ([0xEB, 0x5A, 0xE9, 0x87] @ [33] @ [if odd y then 3 else 2] @ be_bytes 32 x)
         \<and> length ([if odd y then 3 else 2 :: byte] @ be_bytes 32 x) = 33
         \<and> length (be_bytes 32 x) = 32
         \<and> be_value (be_bytes 32 x) = x
         \<and> UVarInt_encode 33 = [33]
         \<and> addSignature tx pt sg
             = Inr (tx\<lparr>signatures :=
                 [\<lparr>pub_key = [0xEB, 0x5A, 0xE9, 0x87] @ [33] @ [if odd y then 3 else 2]
                              @ be_bytes 32 x,
                   signature = sg, sig_account_number = account_number tx,
                   sig_sequence = sequence tx\<rparr>]\<rparr>)"
proof -
  have fits: "x < 256 ^ 32"
    using assms(3) by simp
  have tag: "UVarInt_encode (serializePubKey_format pt) = [if odd y then 3 else 2]"
    using assms(2) by (simp add: format_tag UVarInt_encode_small)
  have len: "UVarInt_encode 33 = [33]"
    by (simp add: UVarInt_encode_small)
  have "serializePubKey pt
      = Inr (pubkey_prefix @ encodeBinaryByteArray ([if odd y then 3 else 2] @ be_bytes 32 x))"
    using assms(1) fits tag by (simp add: serializePubKey_def toArrayLike_be_def)
  moreover have "encodeBinaryByteArray ([if odd y then 3 else 2] @ be_bytes 32 x)
      = [33] @ [if odd y then 3 else 2] @ be_bytes 32 x"
    using len by (simp add: encodeBinaryByteArray_def length_be_bytes)
  moreover have "be_value (be_bytes 32 x) = x"
    using fits by (simp add: be_value_be_bytes)
  ultimately show ?thesis
    using len by (simp add: pubkey_prefix_bytes length_be_bytes addSignature_def)
qed

theorem serializePubKey_compressed_witness:
  "getX point_5_7 = Some 5 \<and> getY point_5_7 = Some 7 \<and> (5::nat) < 2 ^ 256
   \<and> serializePubKey point_5_7
       = Inr [0xEB, 0x5A, 0xE9, 0x87, 33, 3,
              0, 0, 0, 0, 0, 0, 0, 0, 0, 0, 0, 0, 0, 0, 0, 0,
              0, 0, 0, 0, 0, 0, 0, 0, 0, 0, 0, 0, 0, 0, 0, 5]
   \<and> addSignature (tx_test_chain None) point_5_7 [1, 2]
       = Inr ((tx_test_chain None)\<lparr>signatures :=
           [\<lparr>pub_key = [0xEB, 0x5A, 0xE9, 0x87, 33, 3,
                         0, 0, 0, 0, 0, 0, 0, 0, 0, 0, 0, 0, 0, 0, 0, 0,
                         0, 0, 0, 0, 0, 0, 0, 0, 0, 0, 0, 0, 0, 0, 0, 5],
             signature = [1, 2],
             sig_account_number = account_number (tx_test_chain None),
             sig_sequence = sequence (tx_test_chain None)\<rparr>]\<rparr>)"
proof -
  have b: "be_bytes 32 5 = [0, 0, 0, 0, 0, 0, 0, 0, 0, 0, 0, 0, 0, 0, 0, 0,
              0, 0, 0, 0, 0, 0, 0, 0, 0, 0, 0, 0, 0, 0, 0, 5]"
    by code_simp
  have p: "getX point_5_7 = Some 5" "getY point_5_7 = Some 7" "(5::nat) < 2 ^ 256"
    by (simp_all add: point_5_7_def)
  show ?thesis
    using serializePubKey_compressed [OF p, where tx = "tx_test_chain None" and sg = "[1, 2]"] p
    by (simp add: b)
qed

text \<open>
  C9: on a point that has no \<open>x\<close> coordinate, as the point at infinity, the serialization
  fails, with the exception of the call on the missing number; on a point whose \<open>x\<close> is
  below \<open>2^256\<close> it returns a buffer.
\<close>

theorem serializePubKey_failure:
  "(getX pt = None \<longrightarrow> (\<exists>e. serializePubKey pt = Inl e \<and> InvalidPointError e))
   \<and> (\<forall>x. getX pt = Some x \<and> x < 2 ^ 256 \<longrightarrow> (\<exists>b. serializePubKey pt = Inr b))"
  by (auto simp: serializePubKey_def toArrayLike_be_def InvalidPointError_def)

theorem serializePubKey_failure_witness:
  "getX \<lparr>getX = None, getY = None\<rparr> = None
   \<and> serializePubKey \<lparr>getX = None, getY = None\<rparr> = Inl TypeError
   \<and> InvalidPointError TypeError
   \<and> getX \<lparr>getX = Some 5, getY = Some 7\<rparr> = Some 5 \<and> (5::nat) < 2 ^ 256
   \<and> (\<exists>b. serializePubKey \<lparr>getX = Some 5, getY = Some 7\<rparr> = Inr b)"
  using serializePubKey_failure [of "\<lparr>getX = None, getY = None\<rparr>"]
    serializePubKey_failure [of "\<lparr>getX = Some 5, getY = Some 7\<rparr>"]
  by (simp add: serializePubKey_def InvalidPointError_def)

subsection \<open>Signatures\<close>

lemma addSignature_ok:
  "serializePubKey pubKey = Inr pk \<Longrightarrow>
     addSignature tx pubKey sg
       = Inr (tx\<lparr>signatures := [\<lparr>pub_key = pk, signature = sg,
                    sig_account_number = account_number tx, sig_sequence = sequence tx\<rparr>]\<rparr>)"
  by (simp add: addSignature_def)

lemma addSignature_length:
  "addSignature tx pubKey sg = Inr tx' \<Longrightarrow> length (signatures tx') = 1"
  by (auto simp: addSignature_def split: sum.splits)

lemma sign_length:
  "sign cr conv tx privateKey arg = Inr tx' \<Longrightarrow> length (signatures tx') = 1"
  by (auto simp: sign_def Let_def dest: addSignature_length split: if_splits sum.splits)

lemma invoke_invariant:
  "length (signatures tx) \<le> 1 \<Longrightarrow> length (signatures (snd (invoke ms c tx))) \<le> 1"
  by (cases c) (auto dest: addSignature_length sign_length split: sum.splits)

lemma invoke_all_invariant:
  "length (signatures tx) \<le> 1 \<Longrightarrow> length (signatures (invoke_all ms cs tx)) \<le> 1"
proof (induction cs arbitrary: tx)
  case Nil
  then show ?case by simp
next
  case (Cons c cs)
  from Cons.prems have "length (signatures (snd (invoke ms c tx))) \<le> 1"
    by (rule invoke_invariant)
  then have "length (signatures (invoke_all ms cs (snd (invoke ms c tx)))) \<le> 1"
    by (rule Cons.IH)
  then show ?case by simp
qed

lemma constructor_signatures:
  "Transaction_constructor arg = Inr tx \<Longrightarrow> signatures tx = []"
  by (auto simp: Transaction_constructor_def Let_def split: option.splits if_splits)

lemma addSignature_calls_one:
  "addSignature_calls cs \<Longrightarrow> cs \<noteq> [] \<Longrightarrow> length (signatures (invoke_all ms cs tx)) = 1"
proof (induction cs arbitrary: tx)
  case Nil
  then show ?case by simp
next
  case (Cons c cs)
  then obtain p s pk where c: "c = CallAddSignature p s" and pk: "serializePubKey p = Inr pk"
    and rest: "addSignature_calls cs"
    by (cases c) (auto split: sum.splits)
  let ?tx = "snd (invoke ms c tx)"
  have one: "length (signatures ?tx) = 1"
    using c pk by (simp add: addSignature_ok)
  show ?case
  proof (cases cs)
    case Nil
    with one show ?thesis by simp
  next
    case (Cons d ds)
    with Cons.IH [OF rest, of ?tx] show ?thesis by simp
  qed
qed

text \<open>
  C5: \<open>addSignature\<close> with a point that serializes sets \<open>signatures\<close> to the one entry
  made of the serialized key, the given signature and the transaction's account number
  and sequence, whatever \<open>signatures\<close> held; after two calls in a row, and after any
  non-empty list of such calls, \<open>signatures\<close> has exactly one entry, the last one given;
  every method call keeps \<open>signatures\<close> at one entry at most, and so does every list of
  calls on a constructed transaction.
\<close>

theorem addSignature_replaces:
  "(\<forall>pk. serializePubKey pubKey = Inr pk \<longrightarrow>
      addSignature tx pubKey sg
        = Inr (tx\<lparr>signatures := [\<lparr>pub_key = pk, signature = sg,
                     sig_account_number = account_number tx, sig_sequence = sequence tx\<rparr>]\<rparr>))
   \<and> (\<forall>t1 t2. addSignature tx pubKey sg = Inr t1 \<and> addSignature t1 pubKey' sg' = Inr t2 \<longrightarrow>
        length (signatures t2) = 1 \<and> signature (hd (signatures t2)) = sg')
   \<and> (addSignature_calls cs \<and> cs \<noteq> [] \<longrightarrow> length (signatures (invoke_all ms cs tx)) = 1)
   \<and> (length (signatures tx) \<le> 1 \<longrightarrow> length (signatures (snd (invoke ms c tx))) \<le> 1)
   \<and> (\<forall>tx0. Transaction_constructor arg = Inr tx0 \<longrightarrow>
        length (signatures (invoke_all ms cs' tx0)) \<le> 1)"
proof -
  have a: "\<forall>pk. serializePubKey pubKey = Inr pk \<longrightarrow>
      addSignature tx pubKey sg
        = Inr (tx\<lparr>signatures := [\<lparr>pub_key = pk, signature = sg,
                     sig_account_number = account_number tx, sig_sequence = sequence tx\<rparr>]\<rparr>)"
    by (simp add: addSignature_ok)
  have b: "\<forall>t1 t2. addSignature tx pubKey sg = Inr t1 \<and> addSignature t1 pubKey' sg' = Inr t2 \<longrightarrow>
        length (signatures t2) = 1 \<and> signature (hd (signatures t2)) = sg'"
    by (auto simp: addSignature_def split: sum.splits)
  have c: "addSignature_calls cs \<and> cs \<noteq> [] \<longrightarrow> length (signatures (invoke_all ms cs tx)) = 1"
    using addSignature_calls_one by blast
  have d: "length (signatures tx) \<le> 1 \<longrightarrow> length (signatures (snd (invoke ms c tx))) \<le> 1"
    using invoke_invariant by blast
  have e: "\<forall>tx0. Transaction_constructor arg = Inr tx0 \<longrightarrow>
        length (signatures (invoke_all ms cs' tx0)) \<le> 1"
  proof (intro allI impI)
    fix tx0 :: "'a transaction"
    assume "Transaction_constructor arg = Inr tx0"
    then have "length (signatures tx0) \<le> 1"
      by (simp add: constructor_signatures)
    then show "length (signatures (invoke_all ms cs' tx0)) \<le> 1"
      by (rule invoke_all_invariant)
  qed
  from a b c d e show ?thesis by blast
qed

theorem addSignature_replaces_witness:
  "serializePubKey point_5_7 = Inr serialized_5_7
   \<and> addSignature (tx_test_chain None) point_5_7 [1, 2]
       = Inr ((tx_test_chain None)\<lparr>signatures :=
                [\<lparr>pub_key = serialized_5_7, signature = [1, 2],
                  sig_account_number = 1, sig_sequence = 5\<rparr>]\<rparr>)
   \<and> addSignature ((tx_test_chain None)\<lparr>signatures :=
                [\<lparr>pub_key = serialized_5_7, signature = [1, 2],
                  sig_account_number = 1, sig_sequence = 5\<rparr>]\<rparr>) point_5_7 [3]
       = Inr ((tx_test_chain None)\<lparr>signatures :=
                [\<lparr>pub_key = serialized_5_7, signature = [3],
                  sig_account_number = 1, sig_sequence = 5\<rparr>]\<rparr>)
   \<and> addSignature_calls [CallAddSignature point_5_7 [1, 2], CallAddSignature point_5_7 [3]]
   \<and> length (signatures (invoke_all modules_test
         [CallAddSignature point_5_7 [1, 2], CallAddSignature point_5_7 [3]] (tx_test_chain None))) = 1
   \<and> length (signatures (tx_test_chain None)) \<le> 1
   \<and> length (signatures (snd (invoke modules_test (CallSign ''01'' None) (tx_test_chain None)))) \<le> 1
   \<and> Transaction_constructor (Some (data_test_chain None)) = Inr (tx_test_chain None)
   \<and> length (signatures (invoke_all modules_test
         [CallSign ''01'' None, CallSerialize, CallAddSignature point_5_7 [3]] (tx_test_chain None))) \<le> 1"
  using addSignature_replaces [where tx = "tx_test_chain None" and pubKey = point_5_7
      and sg = "[1, 2]" and pubKey' = point_5_7 and sg' = "[3]"
      and cs = "[CallAddSignature point_5_7 [1, 2], CallAddSignature point_5_7 [3]]"
      and ms = modules_test and c = "CallSign ''01'' None"
      and arg = "Some (data_test_chain None)"
      and cs' = "[CallSign ''01'' None, CallSerialize, CallAddSignature point_5_7 [3]]"]
  by (simp add: serialize_5_7 constructor_test_chain addSignature_def)
     (simp add: tx_test_chain_def)

lemma sign_empty_key:
  "\<exists>e. sign cr conv tx [] arg = Inl e \<and> MissingKeyError e"
  by (simp add: sign_def MissingKeyError_def)

text \<open>
  C3: for a non-empty private key, \<open>sign\<close> is \<open>addSignature\<close> applied to the derived
  public key and to the signature that the signer returns for the hexadecimal text of
  the sign bytes and the key bytes; when the sign bytes and the key serialize, that
  signature is the one entry of \<open>signatures\<close>. The text has two characters per byte, all
  of them lower-case hexadecimal digits, and decodes back to the sign bytes.
\<close>

theorem sign_signs_hex_text:
  assumes "privateKey \<noteq> []"
  shows "sign cr conv tx privateKey arg
           = (case getSignBytes conv tx arg of
                Inl e \<Rightarrow> Inl e
              | Inr signBytes \<Rightarrow>
                  addSignature tx (generatePubKey cr (Buffer_from_hex privateKey))
                    (generateSignature cr (toString_hex signBytes) (Buffer_from_hex privateKey)))
         \<and> (\<forall>signBytes pk.
               getSignBytes conv tx arg = Inr signBytes
               \<and> serializePubKey (generatePubKey cr (Buffer_from_hex privateKey)) = Inr pk
               \<longrightarrow> sign cr conv tx privateKey arg
                     = Inr (tx\<lparr>signatures :=
                              [\<lparr>pub_key = pk,
                                signature = generateSignature cr (toString_hex signBytes)
                                              (Buffer_from_hex privateKey),
                                sig_account_number = account_number tx,
                                sig_sequence = sequence tx\<rparr>]\<rparr>)
                 \<and> length (toString_hex signBytes) = 2 * length signBytes
                 \<and> set (toString_hex signBytes) \<subseteq> set ''0123456789abcdef''
                 \<and> Buffer_from_hex (toString_hex signBytes) = signBytes)"
  using assms
  by (auto simp: sign_def Let_def addSignature_ok length_toString_hex from_hex_to_hex
        dest: subsetD [OF toString_hex_lower] split: sum.splits)

theorem sign_signs_hex_text_witness:
  "''01'' \<noteq> []
   \<and> getSignBytes convertObjectToSignBytes (tx_test_chain (Some [])) None
       = Inr (Buffer_from_string scenario_text)
   \<and> serializePubKey (generatePubKey crypto_test (Buffer_from_hex ''01'')) = Inr serialized_5_7
   \<and> sign crypto_test convertObjectToSignBytes (tx_test_chain (Some [])) ''01'' None
       = Inr ((tx_test_chain (Some []))\<lparr>signatures :=
           [\<lparr>pub_key = serialized_5_7, signature = Buffer_from_string scenario_hex,
             sig_account_number = 1, sig_sequence = 5\<rparr>]\<rparr>)
   \<and> length (toString_hex (Buffer_from_string scenario_text))
       = 2 * length (Buffer_from_string scenario_text)
   \<and> Buffer_from_hex scenario_hex = Buffer_from_string scenario_text"
proof -
  have pk: "serializePubKey (generatePubKey crypto_test (Buffer_from_hex ''01'')) = Inr serialized_5_7"
    by (simp add: crypto_test_def serialize_5_7)
  have sg: "generateSignature crypto_test scenario_hex (Buffer_from_hex ''01'')
      = Buffer_from_string scenario_hex"
    by (simp add: crypto_test_def)
  have acc: "account_number (tx_test_chain (Some [])) = 1" "sequence (tx_test_chain (Some [])) = 5"
    by (simp_all add: tx_test_chain_def)
  have ne: "''01'' \<noteq> []" by simp
  note r = sign_signs_hex_text [OF ne, of crypto_test convertObjectToSignBytes
      "tx_test_chain (Some [])" None, THEN conjunct2, rule_format,
      of "Buffer_from_string scenario_text" serialized_5_7]
  have "sign crypto_test convertObjectToSignBytes (tx_test_chain (Some [])) ''01'' None
          = Inr ((tx_test_chain (Some []))\<lparr>signatures :=
              [\<lparr>pub_key = serialized_5_7,
                signature = generateSignature crypto_test
                  (toString_hex (Buffer_from_string scenario_text)) (Buffer_from_hex ''01''),
                sig_account_number = account_number (tx_test_chain (Some [])),
                sig_sequence = sequence (tx_test_chain (Some []))\<rparr>]\<rparr>)
        \<and> length (toString_hex (Buffer_from_string scenario_text))
            = 2 * length (Buffer_from_string scenario_text)
        \<and> set (toString_hex (Buffer_from_string scenario_text)) \<subseteq> set ''0123456789abcdef''
        \<and> Buffer_from_hex (toString_hex (Buffer_from_string scenario_text))
            = Buffer_from_string scenario_text"
    by (rule r) (intro conjI sign_bytes_test_chain pk)
  then show ?thesis
    by (simp only: hex_text_test_chain sg acc sign_bytes_test_chain pk ne) simp
qed

subsection \<open>Determinism of the sign bytes\<close>

text \<open>
  C6: a call of \<open>getSignBytes\<close> leaves every field of the transaction as it was; a second
  call returns what the first returned; and two transactions constructed from arguments
  with the same chain id, account number, sequence, memo and source, and with messages
  of the same signable form, have the same sign bytes.
\<close>

theorem getSignBytes_pure:
  "snd (invoke ms (CallGetSignBytes arg) tx) = tx
   \<and> fst (invoke ms (CallGetSignBytes arg) (snd (invoke ms (CallGetSignBytes arg) tx)))
       = fst (invoke ms (CallGetSignBytes arg) tx)
   \<and> (\<forall>t1 t2 m1 m2.
         Transaction_constructor (Some d1) = Inr t1 \<and> Transaction_constructor (Some d2) = Inr t2
         \<and> data_chainId d1 = data_chainId d2 \<and> data_accountNumber d1 = data_accountNumber d2
         \<and> data_sequence d1 = data_sequence d2 \<and> data_memo d1 = data_memo d2
         \<and> data_source d1 = data_source d2
         \<and> data_msg d1 = Some m1 \<and> data_msg d2 = Some m2 \<and> getSignMsg m1 = getSignMsg m2
         \<longrightarrow> getSignBytes conv t1 None = getSignBytes conv t2 None)"
proof -
  have a: "snd (invoke ms (CallGetSignBytes arg) tx) = tx"
    by (simp split: sum.splits)
  have c: "\<forall>t1 t2 m1 m2.
         Transaction_constructor (Some d1) = Inr t1 \<and> Transaction_constructor (Some d2) = Inr t2
         \<and> data_chainId d1 = data_chainId d2 \<and> data_accountNumber d1 = data_accountNumber d2
         \<and> data_sequence d1 = data_sequence d2 \<and> data_memo d1 = data_memo d2
         \<and> data_source d1 = data_source d2
         \<and> data_msg d1 = Some m1 \<and> data_msg d2 = Some m2 \<and> getSignMsg m1 = getSignMsg m2
         \<longrightarrow> getSignBytes conv t1 None = getSignBytes conv t2 None"
    by (auto simp: Transaction_constructor_def getSignBytes_def signMsg_def Let_def
          split: option.splits if_splits)
  from a c show ?thesis by simp
qed

theorem getSignBytes_pure_witness:
  \<open>Transaction_constructor (Some (data_test_chain (Some []))) = Inr (tx_test_chain (Some []))
   \<and> Transaction_constructor (Some ((data_test_chain (Some []))\<lparr>data_msg := Some (msg_foo\<lparr>getMsg := 7\<rparr>)\<rparr>))
       = Inr ((tx_test_chain (Some []))\<lparr>msg := msg_foo\<lparr>getMsg := 7\<rparr>\<rparr>)
   \<and> getSignMsg msg_foo = getSignMsg (msg_foo\<lparr>getMsg := 7\<rparr>)
   \<and> msg_foo \<noteq> msg_foo\<lparr>getMsg := 7\<rparr>
   \<and> getSignBytes convertObjectToSignBytes (tx_test_chain (Some [])) None
       = getSignBytes convertObjectToSignBytes ((tx_test_chain (Some []))\<lparr>msg := msg_foo\<lparr>getMsg := 7\<rparr>\<rparr>) None\<close>
proof -
  have c2: "Transaction_constructor (Some ((data_test_chain (Some []))\<lparr>data_msg := Some (msg_foo\<lparr>getMsg := 7\<rparr>)\<rparr>))
       = Inr ((tx_test_chain (Some []))\<lparr>msg := msg_foo\<lparr>getMsg := 7\<rparr>\<rparr>)"
    by (simp add: Transaction_constructor_def data_test_chain_def tx_test_chain_def or_zero_def)
  have ne: "msg_foo \<noteq> msg_foo\<lparr>getMsg := 7\<rparr>"
    by (simp add: msg_foo_def)
  have f1: "data_msg (data_test_chain (Some [])) = Some msg_foo"
    by (simp add: data_test_chain_def)
  note same = getSignBytes_pure [where ?d1.0 = "data_test_chain (Some [])"
        and ?d2.0 = "(data_test_chain (Some []))\<lparr>data_msg := Some (msg_foo\<lparr>getMsg := 7\<rparr>)\<rparr>"
        and conv = convertObjectToSignBytes, THEN conjunct2, THEN conjunct2, rule_format,
        of "tx_test_chain (Some [])" "(tx_test_chain (Some []))\<lparr>msg := msg_foo\<lparr>getMsg := 7\<rparr>\<rparr>"
          msg_foo "msg_foo\<lparr>getMsg := 7\<rparr>"]
  have "getSignBytes convertObjectToSignBytes (tx_test_chain (Some [])) None
       = getSignBytes convertObjectToSignBytes ((tx_test_chain (Some []))\<lparr>msg := msg_foo\<lparr>getMsg := 7\<rparr>\<rparr>) None"
    by (rule same) (simp add: constructor_test_chain c2 f1)
  then show ?thesis
    using constructor_test_chain [of "Some []"] c2 ne by simp
qed

subsection \<open>Input coins of a SendMsg\<close>

lemma denom_total_Nil: "denom_total d [] = 0"
  by (simp add: denom_total_def)

lemma denom_total_Cons:
  "denom_total d (c # cs) = (if denom c = d then amount c else 0) + denom_total d cs"
  by (simp add: denom_total_def)

lemma denom_total_merge:
  "denom_total d (merge_exact vs c) = denom_total d vs + (if denom c = d then amount c else 0)"
  by (induction vs) (auto simp: denom_total_Cons denom_total_Nil)

lemma denoms_merge:
  "map denom (merge_exact vs c)
     = (if denom c \<in> set (map denom vs) then map denom vs else map denom vs @ [denom c])"
  by (induction vs) auto

lemma distinct_merge:
  "distinct (map denom vs) \<Longrightarrow> distinct (map denom (merge_exact vs c))"
  by (simp add: denoms_merge)

lemma set_denoms_merge:
  "set (map denom (merge_exact vs c)) = insert (denom c) (set (map denom vs))"
  by (auto simp: denoms_merge)

lemma foldl_merge_distinct:
  "distinct (map denom vs) \<Longrightarrow> distinct (map denom (foldl merge_exact vs cs))"
  by (induction cs arbitrary: vs) (simp_all add: distinct_merge)

lemma foldl_merge_set:
  "set (map denom (foldl merge_exact vs cs)) = set (map denom vs) \<union> set (map denom cs)"
  by (induction cs arbitrary: vs) (simp_all add: set_denoms_merge del: set_map)

lemma foldl_merge_total:
  "denom_total d (foldl merge_exact vs cs) = denom_total d vs + denom_total d cs"
  by (induction cs arbitrary: vs) (simp_all add: denom_total_merge denom_total_Cons denom_total_Nil)

lemma distinct_total:
  "distinct (map denom vs) \<Longrightarrow> v \<in> set vs \<Longrightarrow> denom_total (denom v) vs = amount v"
proof (induction vs)
  case Nil
  then show ?case by simp
next
  case (Cons a vs)
  show ?case
  proof (cases "v = a")
    case True
    have "filter (\<lambda>c. denom c = denom a) vs = []"
      using Cons.prems(1) by (force simp: filter_empty_conv image_iff)
    then have "denom_total (denom a) vs = 0"
      by (simp add: denom_total_def)
    with True show ?thesis by (simp add: denom_total_Cons)
  next
    case False
    with Cons.prems have "v \<in> set vs" and "denom a \<noteq> denom v" by auto
    with Cons show ?thesis by (simp add: denom_total_Cons)
  qed
qed

lemma distinct_amounts:
  "distinct (map denom vs) \<Longrightarrow> map amount vs = map (\<lambda>d. denom_total d vs) (map denom vs)"
  by (simp add: distinct_total)

lemma round_to_double_exact: "\<bar>s\<bar> \<le> 2 ^ 53 \<Longrightarrow> round_to_double s = s"
proof -
  assume "\<bar>s\<bar> \<le> 2 ^ 53"
  then have "nat \<bar>s\<bar> \<le> nat (2 ^ 53)"
    by (rule nat_mono)
  then have "nat \<bar>s\<bar> \<le> 2 ^ 53"
    by simp
  then show ?thesis
    by (simp add: round_to_double_def)
qed

lemma denom_abs_total_Nil: "denom_abs_total d [] = 0"
  by (simp add: denom_abs_total_def)

lemma denom_abs_total_Cons:
  "denom_abs_total d (c # cs) = (if denom c = d then \<bar>amount c\<bar> else 0) + denom_abs_total d cs"
  by (simp add: denom_abs_total_def)

lemma denom_abs_total_nonneg: "0 \<le> denom_abs_total d cs"
  by (induction cs) (simp_all add: denom_abs_total_Nil denom_abs_total_Cons)

lemma abs_amount_le_total: "v \<in> set vs \<Longrightarrow> \<bar>amount v\<bar> \<le> denom_abs_total (denom v) vs"
proof (induction vs)
  case Nil
  then show ?case by simp
next
  case (Cons a vs)
  show ?case
  proof (cases "v = a")
    case True
    then show ?thesis
      using denom_abs_total_nonneg [of "denom a" vs] by (simp add: denom_abs_total_Cons)
  next
    case False
    with Cons have "\<bar>amount v\<bar> \<le> denom_abs_total (denom v) vs" by simp
    then show ?thesis
      by (auto simp: denom_abs_total_Cons)
  qed
qed

lemma denom_abs_total_merge_exact:
  "denom_abs_total d (merge_exact vs c)
     \<le> denom_abs_total d vs + (if denom c = d then \<bar>amount c\<bar> else 0)"
  by (induction vs) (auto simp: denom_abs_total_Cons denom_abs_total_Nil)

lemma merge_coin_exact:
  "\<forall>v \<in> set vs. denom v = denom c \<longrightarrow> \<bar>amount v + amount c\<bar> \<le> 2 ^ 53
     \<Longrightarrow> merge_coin vs c = merge_exact vs c"
  by (induction vs) (simp_all add: Number_Big_plus_def round_to_double_exact)

lemma foldl_merge_coin_exact:
  "\<forall>d. denom_abs_total d vs + denom_abs_total d cs \<le> 2 ^ 53
     \<Longrightarrow> foldl merge_coin vs cs = foldl merge_exact vs cs"
proof (induction cs arbitrary: vs)
  case Nil
  show ?case by simp
next
  case (Cons c cs)
  have small: "\<forall>v \<in> set vs. denom v = denom c \<longrightarrow> \<bar>amount v + amount c\<bar> \<le> 2 ^ 53"
  proof (intro ballI impI)
    fix v
    assume v: "v \<in> set vs" and d: "denom v = denom c"
    have "\<bar>amount v\<bar> \<le> denom_abs_total (denom c) vs"
      using abs_amount_le_total [OF v] d by simp
    moreover have "\<bar>amount c\<bar> \<le> denom_abs_total (denom c) (c # cs)"
      using denom_abs_total_nonneg [of "denom c" cs] by (simp add: denom_abs_total_Cons)
    moreover have "denom_abs_total (denom c) vs + denom_abs_total (denom c) (c # cs) \<le> 2 ^ 53"
      using Cons.prems by blast
    ultimately show "\<bar>amount v + amount c\<bar> \<le> 2 ^ 53"
      by linarith
  qed
  have next_bound: "\<forall>d. denom_abs_total d (merge_exact vs c) + denom_abs_total d cs \<le> 2 ^ 53"
  proof
    fix d
    have "denom_abs_total d (merge_exact vs c) + denom_abs_total d cs
        \<le> denom_abs_total d vs + denom_abs_total d (c # cs)"
      using denom_abs_total_merge_exact [of d vs c] by (simp add: denom_abs_total_Cons)
    also have "\<dots> \<le> 2 ^ 53"
      using Cons.prems by blast
    finally show "denom_abs_total d (merge_exact vs c) + denom_abs_total d cs \<le> 2 ^ 53" .
  qed
  have "foldl merge_coin vs (c # cs) = foldl merge_coin (merge_exact vs c) cs"
    by (simp add: merge_coin_exact [OF small])
  also have "\<dots> = foldl merge_exact (merge_exact vs c) cs"
    by (rule Cons.IH [OF next_bound])
  finally show ?case by simp
qed

lemma amounts_exact_bound:
  assumes "amounts_exact cs"
  shows "denom_abs_total d [] + denom_abs_total d cs \<le> 2 ^ 53"
proof (cases "d \<in> set (map denom cs)")
  case True
  then obtain c where "c \<in> set cs" and "denom c = d" by auto
  with assms show ?thesis
    by (auto simp: amounts_exact_def list_all_iff denom_abs_total_Nil)
next
  case False
  then have "filter (\<lambda>c. denom c = d) cs = []"
    by (force simp: filter_empty_conv image_iff)
  then show ?thesis
    by (simp add: denom_abs_total_def)
qed

lemma merge_coin_no_match:
  "\<forall>v \<in> set vs. denom v \<noteq> denom c \<Longrightarrow> merge_coin vs c = vs @ [c]"
  by (induction vs) auto

lemma deref_update_first:
  assumes "distinct ic" and "\<forall>a \<in> set ic. a < length h"
    and "find (\<lambda>e. denom (h ! e) = denom c) ic = Some e"
  shows "deref (h[e := (h ! e)\<lparr>amount := Number_Big_plus (amount (h ! e)) (amount c)\<rparr>]) ic
           = merge_coin (deref h ic) c"
  using assms
proof (induction ic)
  case Nil
  then show ?case by simp
next
  case (Cons a ic)
  show ?case
  proof (cases "denom (h ! a) = denom c")
    case True
    with Cons.prems(3) have e: "e = a" by simp
    have "a \<notin> set ic" using Cons.prems(1) by simp
    then have "\<forall>x \<in> set ic. h[a := (h ! a)\<lparr>amount := Number_Big_plus (amount (h ! a)) (amount c)\<rparr>] ! x = h ! x"
      by (metis nth_list_update_neq)
    then have "deref (h[a := (h ! a)\<lparr>amount := Number_Big_plus (amount (h ! a)) (amount c)\<rparr>]) ic = deref h ic"
      by (simp add: deref_def)
    with True e Cons.prems(2) show ?thesis
      by (simp add: deref_def)
  next
    case False
    with Cons.prems(3) have f: "find (\<lambda>e. denom (h ! e) = denom c) ic = Some e" by simp
    then have "e \<in> set ic"
      by (auto simp: find_Some_iff)
    with Cons.prems(1) have "e \<noteq> a" by auto
    moreover have "deref (h[e := (h ! e)\<lparr>amount := Number_Big_plus (amount (h ! e)) (amount c)\<rparr>]) ic
        = merge_coin (deref h ic) c"
      using Cons.IH Cons.prems(1,2) f by simp
    ultimately show ?thesis
      using False by (simp add: deref_def)
  qed
qed

lemma store_inv_old: "store_inv h0 st \<Longrightarrow> r < length h0 \<Longrightarrow> fst st ! r = h0 ! r"
  by (metis store_inv_def nth_take)

lemma calInputCoins_each_step:
  assumes "store_inv h0 st" and "r < length h0"
  shows "store_inv h0 (calInputCoins_each st r)
         \<and> deref (fst (calInputCoins_each st r)) (snd (calInputCoins_each st r))
             = merge_coin (deref (fst st) (snd st)) (h0 ! r)"
proof -
  obtain h ic where st: "st = (h, ic)" by (cases st)
  have c: "h ! r = h0 ! r" using assms st store_inv_old by fastforce
  have tk: "take (length h0) h = h0" and le: "length h0 \<le> length h" and di: "distinct ic"
    and rg: "\<forall>a \<in> set ic. length h0 \<le> a \<and> a < length h"
    using assms(1) st by (simp_all add: store_inv_def)
  show ?thesis
  proof (cases "find (\<lambda>e. denom (h ! e) = denom (h ! r)) ic")
    case None
    then have nm: "\<forall>v \<in> set (deref h ic). denom v \<noteq> denom (h ! r)"
      by (auto simp: find_None_iff deref_def)
    have step: "calInputCoins_each st r = (h @ [h ! r], ic @ [length h])"
      using None st by (simp add: calInputCoins_each_def Let_def)
    have "deref (h @ [h ! r]) (ic @ [length h]) = deref h ic @ [h ! r]"
      using rg by (auto simp: deref_def nth_append)
    moreover have "store_inv h0 (h @ [h ! r], ic @ [length h])"
      using tk le di rg by (auto simp: store_inv_def)
    ultimately show ?thesis
      using step st c merge_coin_no_match [OF nm] by simp
  next
    case (Some e)
    then have e_in: "e \<in> set ic" by (auto simp: find_Some_iff)
    let ?h = "h[e := (h ! e)\<lparr>amount := Number_Big_plus (amount (h ! e)) (amount (h ! r))\<rparr>]"
    have step: "calInputCoins_each st r = (?h, ic)"
      using Some st by (simp add: calInputCoins_each_def Let_def)
    have "length h0 \<le> e" using rg e_in by blast
    then have "take (length h0) ?h = h0"
      using tk by simp
    then have "store_inv h0 (?h, ic)"
      using le di rg by (simp add: store_inv_def)
    moreover have "deref ?h ic = merge_coin (deref h ic) (h ! r)"
      using di rg Some by (intro deref_update_first) auto
    ultimately show ?thesis
      using step st c by simp
  qed
qed

lemma calInputCoins_steps:
  assumes "store_inv h0 st" and "\<forall>r \<in> set cs. r < length h0"
  shows "store_inv h0 (calInputCoins st cs)
         \<and> deref (fst (calInputCoins st cs)) (snd (calInputCoins st cs))
             = foldl merge_coin (deref (fst st) (snd st)) (deref h0 cs)"
  using assms
proof (induction cs arbitrary: st)
  case Nil
  then show ?case by (simp add: calInputCoins_def deref_def)
next
  case (Cons r cs)
  from Cons.prems have r: "r < length h0" and rest: "\<forall>r \<in> set cs. r < length h0" by simp_all
  note s = calInputCoins_each_step [OF Cons.prems(1) r]
  from Cons.IH [OF conjunct1 [OF s] rest] conjunct2 [OF s]
  show ?case
    by (simp add: calInputCoins_def deref_def)
qed

lemma outputs_steps:
  assumes "store_inv h0 st" and "\<forall>item \<in> set items. \<forall>r \<in> set (coins item). r < length h0"
  shows "store_inv h0 (foldl (\<lambda>st item. calInputCoins st (coins item)) st items)
         \<and> deref (fst (foldl (\<lambda>st item. calInputCoins st (coins item)) st items))
                 (snd (foldl (\<lambda>st item. calInputCoins st (coins item)) st items))
             = foldl merge_coin (deref (fst st) (snd st)) (deref h0 (concat (map coins items)))"
  using assms
proof (induction items arbitrary: st)
  case Nil
  then show ?case by (simp add: deref_def)
next
  case (Cons item items)
  from Cons.prems have i: "\<forall>r \<in> set (coins item). r < length h0"
    and rest: "\<forall>item \<in> set items. \<forall>r \<in> set (coins item). r < length h0" by simp_all
  note s = calInputCoins_steps [OF Cons.prems(1) i]
  from Cons.IH [OF conjunct1 [OF s] rest] conjunct2 [OF s]
  show ?case
    by (simp add: deref_def)
qed

lemma getSignMsg_test:
  "SendMsg_getSignMsg store_test sendMsg_test
     = (store_test @ [\<lparr>denom = ''BNB'', amount = 13\<rparr>, \<lparr>denom = ''BTC'', amount = 4\<rparr>],
        \<lparr>inputs = [\<lparr>address = ''a'', coins = [4, 5]\<rparr>],
         outputs = [\<lparr>address = ''b'', coins = [0, 1]\<rparr>, \<lparr>address = ''c'', coins = [2, 3]\<rparr>]\<rparr>)"
  by (simp add: SendMsg_getSignMsg_def calInputCoins_def calInputCoins_each_def store_test_def
        sendMsg_test_def Let_def Number_Big_plus_def round_to_double_def)

lemma bit_length_big: "bit_length 9007199254740993 = 54"
  by (simp add: bit_length.simps)

lemma round_to_double_big: "round_to_double 9007199254740993 = 9007199254740992"
  by (simp add: round_to_double_def Let_def bit_length_big)

lemma getSignMsg_big:
  "SendMsg_getSignMsg store_big sendMsg_big
     = (store_big @ [\<lparr>denom = ''BNB'', amount = 9007199254740992\<rparr>],
        \<lparr>inputs = [\<lparr>address = ''a'', coins = [2]\<rparr>],
         outputs = [\<lparr>address = ''b'', coins = [0, 1]\<rparr>]\<rparr>)"
  by (simp add: SendMsg_getSignMsg_def calInputCoins_def calInputCoins_each_def store_big_def
        sendMsg_big_def Let_def Number_Big_plus_def round_to_double_big)

text \<open>
  C10, as stated, fails: the amounts are JavaScript numbers, and the sum of two of them
  is rounded to a number. With one output holding two coins of one denom, of amounts
  \<open>2^53\<close> and 1, the input coin has the amount \<open>2^53\<close>, which is not the sum
  \<open>2^53 + 1\<close>.
\<close>

theorem getSignMsg_sums_counterexample:
  "refs_valid store_big sendMsg_big
   \<and> SendMsg_getSignMsg store_big sendMsg_big
       = (store_big @ [\<lparr>denom = ''BNB'', amount = 9007199254740992\<rparr>],
          \<lparr>inputs = [\<lparr>address = ''a'', coins = [2]\<rparr>],
           outputs = [\<lparr>address = ''b'', coins = [0, 1]\<rparr>]\<rparr>)
   \<and> map amount (deref (fst (SendMsg_getSignMsg store_big sendMsg_big)) [2])
       = [9007199254740992]
   \<and> map (\<lambda>d. denom_total d (deref store_big (concat (map coins (this_outputs sendMsg_big)))))
         (map denom (deref (fst (SendMsg_getSignMsg store_big sendMsg_big)) [2]))
       = [9007199254740993]"
  by (simp add: getSignMsg_big)
     (simp add: refs_valid_def store_big_def sendMsg_big_def deref_def denom_total_def)

text \<open>
  C10 (amended): when the amounts of the outputs' coins are integers and, for every
  denom, their magnitudes sum to at most \<open>2^53\<close> (and every coin reference of the
  outputs points into the store), \<open>getSignMsg()\<close> returns a structure with exactly one
  input; its address is the sender; its coins have pairwise different denoms, the denoms
  are those that occur in the coin lists of the outputs, and the amount of each is the
  sum of the amounts of that denom over all coins of all outputs; the outputs of the
  structure are the outputs of the object, with the same coin objects holding what they
  held, as does every object that was in the store before the call.
\<close>

theorem getSignMsg_sums:
  assumes "refs_valid h this"
    and "amounts_exact (deref h (concat (map coins (this_outputs this))))"
  shows "\<exists>ic. inputs (snd (SendMsg_getSignMsg h this)) = [\<lparr>address = this_sender this, coins = ic\<rparr>]
           \<and> distinct (map denom (deref (fst (SendMsg_getSignMsg h this)) ic))
           \<and> set (map denom (deref (fst (SendMsg_getSignMsg h this)) ic))
               = set (map denom (deref h (concat (map coins (this_outputs this)))))
           \<and> map amount (deref (fst (SendMsg_getSignMsg h this)) ic)
               = map (\<lambda>d. denom_total d (deref h (concat (map coins (this_outputs this)))))
                   (map denom (deref (fst (SendMsg_getSignMsg h this)) ic))
           \<and> outputs (snd (SendMsg_getSignMsg h this)) = this_outputs this
           \<and> map (\<lambda>item. deref (fst (SendMsg_getSignMsg h this)) (coins item))
                 (outputs (snd (SendMsg_getSignMsg h this)))
               = map (\<lambda>item. deref h (coins item)) (this_outputs this)
           \<and> take (length h) (fst (SendMsg_getSignMsg h this)) = h"
proof -
  let ?items = "this_outputs this"
  let ?all = "deref h (concat (map coins ?items))"
  let ?st = "foldl (\<lambda>st item. calInputCoins st (coins item)) (h, []) ?items"
  let ?R = "deref (fst ?st) (snd ?st)"
  have valid: "\<forall>item \<in> set ?items. \<forall>r \<in> set (coins item). r < length h"
    using assms(1) by (simp add: refs_valid_def list_all_iff)
  have start: "store_inv h (h, [])"
    by (simp add: store_inv_def)
  note steps = outputs_steps [OF start valid]
  have inv: "store_inv h ?st" using steps by blast
  have "?R = foldl merge_coin [] ?all"
    using steps by (simp add: deref_def)
  also have "\<dots> = foldl merge_exact [] ?all"
    using amounts_exact_bound [OF assms(2)] by (intro foldl_merge_coin_exact) blast
  finally have R: "?R = foldl merge_exact [] ?all" .
  have res: "SendMsg_getSignMsg h this
      = (fst ?st, \<lparr>inputs = [\<lparr>address = this_sender this, coins = snd ?st\<rparr>], outputs = ?items\<rparr>)"
    by (simp add: SendMsg_getSignMsg_def Let_def)
  have d: "distinct (map denom ?R)"
    unfolding R by (rule foldl_merge_distinct) simp
  have s: "set (map denom ?R) = set (map denom ?all)"
    unfolding R by (simp add: foldl_merge_set del: set_map)
  have t: "\<And>d. denom_total d ?R = denom_total d ?all"
    unfolding R by (simp add: foldl_merge_total denom_total_Nil)
  have a: "map amount ?R = map (\<lambda>d. denom_total d ?all) (map denom ?R)"
    using distinct_amounts [OF d] by (simp only: t)
  have old: "\<forall>item \<in> set ?items. deref (fst ?st) (coins item) = deref h (coins item)"
    using valid store_inv_old [OF inv] by (simp add: deref_def)
  have tk: "take (length h) (fst ?st) = h"
    using inv by (simp add: store_inv_def)
  show ?thesis
    unfolding res using d s a old tk by simp
qed

theorem getSignMsg_sums_witness:
  "refs_valid store_test sendMsg_test
   \<and> amounts_exact (deref store_test (concat (map coins (this_outputs sendMsg_test))))
   \<and> SendMsg_getSignMsg store_test sendMsg_test
       = (store_test @ [\<lparr>denom = ''BNB'', amount = 13\<rparr>, \<lparr>denom = ''BTC'', amount = 4\<rparr>],
          \<lparr>inputs = [\<lparr>address = ''a'', coins = [4, 5]\<rparr>],
           outputs = [\<lparr>address = ''b'', coins = [0, 1]\<rparr>, \<lparr>address = ''c'', coins = [2, 3]\<rparr>]\<rparr>)
   \<and> map amount (deref (fst (SendMsg_getSignMsg store_test sendMsg_test)) [4, 5])
       = map (\<lambda>d. denom_total d (deref store_test (concat (map coins (this_outputs sendMsg_test)))))
           (map denom (deref (fst (SendMsg_getSignMsg store_test sendMsg_test)) [4, 5]))
   \<and> take (length store_test) (fst (SendMsg_getSignMsg store_test sendMsg_test)) = store_test"
proof -
  have v: "refs_valid store_test sendMsg_test"
    by (simp add: refs_valid_def store_test_def sendMsg_test_def)
  have x: "amounts_exact (deref store_test (concat (map coins (this_outputs sendMsg_test))))"
    by (simp add: amounts_exact_def denom_abs_total_def deref_def store_test_def sendMsg_test_def)
  from getSignMsg_sums [OF v x] obtain ic where
    "inputs (snd (SendMsg_getSignMsg store_test sendMsg_test))
       = [\<lparr>address = this_sender sendMsg_test, coins = ic\<rparr>]"
    and am: "map amount (deref (fst (SendMsg_getSignMsg store_test sendMsg_test)) ic)
       = map (\<lambda>d. denom_total d (deref store_test (concat (map coins (this_outputs sendMsg_test)))))
           (map denom (deref (fst (SendMsg_getSignMsg store_test sendMsg_test)) ic))"
    and tk: "take (length store_test) (fst (SendMsg_getSignMsg store_test sendMsg_test)) = store_test"
    by blast
  then have "ic = [4, 5]"
    by (simp add: getSignMsg_test)
  with am tk v x getSignMsg_test show ?thesis
    by simp
qed

end
